theory Spec2Isabelle
  imports Complex_Main
begin

section \<open>Python values the scrapers work on\<close>

text \<open>
  A Python \<open>str\<close> is a sequence of Unicode code points, so it is modelled as a list of
  code points. The literals of the source are ASCII, except the phrase of the user
  profile, and are written \<open>ascii ''...''\<close>.
\<close>

type_synonym str = "nat list"

definition ascii :: "string \<Rightarrow> str" where
  "ascii s = map of_char s"

text \<open>
  Every exception the code can meet is a subclass of \<open>Exception\<close>, which is what the
  handlers of the source catch. \<open>HTTPError\<close> stands for whatever \<open>client.get\<close> raises
  (connection failure, timeout, a URL without a scheme).
\<close>

datatype py_error = HTTPError | AttributeError | ValueError | IndexError | UnicodeEncodeError

definition then_do :: "py_error + 'a \<Rightarrow> ('a \<Rightarrow> py_error + 'b) \<Rightarrow> py_error + 'b" where
  "then_do m f = (case m of Inl e \<Rightarrow> Inl e | Inr x \<Rightarrow> f x)"

subsection \<open>String methods\<close>

fun startswith :: "str \<Rightarrow> str \<Rightarrow> bool" where
  "startswith s [] = True"
| "startswith [] (p # ps) = False"
| "startswith (c # cs) (p # ps) = (c = p \<and> startswith cs ps)"

text \<open>\<open>sub in s\<close>\<close>

fun contains :: "str \<Rightarrow> str \<Rightarrow> bool" where
  "contains [] sub = (sub = [])"
| "contains (c # cs) sub = (startswith (c # cs) sub \<or> contains cs sub)"

text \<open>
  \<open>str.isspace\<close> of one code point: the characters \<open>str.strip()\<close> removes.
\<close>

definition isspace :: "nat \<Rightarrow> bool" where
  "isspace c = ((0x09 \<le> c \<and> c \<le> 0x0D) \<or> (0x1C \<le> c \<and> c \<le> 0x20) \<or> c = 0x85 \<or> c = 0xA0
     \<or> c = 0x1680 \<or> (0x2000 \<le> c \<and> c \<le> 0x200A) \<or> c = 0x2028 \<or> c = 0x2029
     \<or> c = 0x202F \<or> c = 0x205F \<or> c = 0x3000)"

definition strip :: "str \<Rightarrow> str" where
  "strip s = rev (dropWhile isspace (rev (dropWhile isspace s)))"

text \<open>
  \<open>s.split(sep)\<close> for a non-empty separator: the pieces between the leftmost
  non-overlapping occurrences of \<open>sep\<close>, so there is always at least one piece. The
  source only splits at non-empty literals (Python raises at an empty one).
\<close>

function split_at :: "str \<Rightarrow> str \<Rightarrow> str list" where
  "split_at sep [] = [[]]"
| "split_at sep (c # cs) =
     (if sep \<noteq> [] \<and> startswith (c # cs) sep
      then [] # split_at sep (drop (length sep) (c # cs))
      else (case split_at sep cs of [] \<Rightarrow> [[c]] | p # ps \<Rightarrow> (c # p) # ps))"
  by pat_completeness auto
termination
  by (relation "measure (\<lambda>(sep, s). length s)") auto

fun join :: "str \<Rightarrow> str list \<Rightarrow> str" where
  "join new [] = []"
| "join new [p] = p"
| "join new (p # q # ps) = p @ new @ join new (q # ps)"

text \<open>\<open>s.replace(old, new)\<close> for a non-empty \<open>old\<close>.\<close>

definition replace :: "str \<Rightarrow> str \<Rightarrow> str \<Rightarrow> str" where
  "replace s old new = join new (split_at old s)"

text \<open>\<open>xs[i]\<close> for an index that is not negative.\<close>

definition getitem :: "'a list \<Rightarrow> nat \<Rightarrow> py_error + 'a" where
  "getitem xs i = (if i < length xs then Inr (xs ! i) else Inl IndexError)"

subsection \<open>urllib.parse.quote\<close>

text \<open>
  \<open>quote(s)\<close> encodes the text as UTF-8 (strictly: a surrogate raises) and keeps the
  bytes of the letters, the digits and \<open>_.-~/\<close>; every other byte becomes \<open>%XX\<close>
  in upper-case hexadecimal.
\<close>

definition utf8 :: "nat \<Rightarrow> py_error + nat list" where
  "utf8 c =
     (if c < 0x80 then Inr [c]
      else if c < 0x800 then Inr [0xC0 + c div 64, 0x80 + c mod 64]
      else if 0xD800 \<le> c \<and> c \<le> 0xDFFF then Inl UnicodeEncodeError
      else if c < 0x10000 then Inr [0xE0 + c div 4096, 0x80 + c div 64 mod 64, 0x80 + c mod 64]
      else if c < 0x110000 then
        Inr [0xF0 + c div 262144, 0x80 + c div 4096 mod 64, 0x80 + c div 64 mod 64, 0x80 + c mod 64]
      else Inl UnicodeEncodeError)"

fun encode :: "str \<Rightarrow> py_error + nat list" where
  "encode [] = Inr []"
| "encode (c # cs) = then_do (utf8 c) (\<lambda>bs. then_do (encode cs) (\<lambda>rest. Inr (bs @ rest)))"

definition always_safe :: "nat \<Rightarrow> bool" where
  "always_safe b = ((65 \<le> b \<and> b \<le> 90) \<or> (97 \<le> b \<and> b \<le> 122) \<or> (48 \<le> b \<and> b \<le> 57)
     \<or> b = 95 \<or> b = 46 \<or> b = 45 \<or> b = 126)"

definition hexdigit :: "nat \<Rightarrow> nat" where
  "hexdigit n = (if n < 10 then 48 + n else 55 + n)"

definition quote_byte :: "nat \<Rightarrow> str" where
  "quote_byte b = (if always_safe b \<or> b = 47 then [b] else [37, hexdigit (b div 16), hexdigit (b mod 16)])"

definition quote :: "str \<Rightarrow> py_error + str" where
  "quote s = then_do (encode s) (\<lambda>bs. Inr (concat (map quote_byte bs)))"

subsection \<open>float() and int() of a text\<close>

text \<open>
  Both conversions first bring the text to ASCII: a decimal digit of any script becomes
  the ASCII digit of the same value, a Unicode space becomes a blank, and at the first
  other character beyond ASCII the text is cut and ends in a question mark.
  \<open>decimal_zeros\<close> lists the digit zero of every script (Unicode 14, as in CPython
  3.11); the nine code points after each are its digits one to nine.
\<close>

definition decimal_zeros :: "nat list" where
  "decimal_zeros = [48, 1632, 1776, 1984, 2406, 2534, 2662, 2790, 2918, 3046, 3174, 3302, 3430,
     3558, 3664, 3792, 3872, 4160, 4240, 6112, 6160, 6470, 6608, 6784, 6800, 6992, 7088, 7232,
     7248, 42528, 43216, 43264, 43472, 43504, 43600, 44016, 65296, 66720, 68912, 69734, 69872,
     69942, 70096, 70384, 70736, 70864, 71248, 71360, 71472, 71904, 72016, 72784, 73040, 73120,
     92768, 92864, 93008, 120782, 120792, 120802, 120812, 120822, 123200, 123632, 125264,
     130032]"

definition decimal :: "nat \<Rightarrow> nat option" where
  "decimal c = (case find (\<lambda>z. z \<le> c \<and> c < z + 10) decimal_zeros of
                  None \<Rightarrow> None | Some z \<Rightarrow> Some (c - z))"

fun to_ascii :: "str \<Rightarrow> str" where
  "to_ascii [] = []"
| "to_ascii (c # cs) =
     (if c < 127 then c # to_ascii cs
      else if isspace c then 32 # to_ascii cs
      else (case decimal c of Some d \<Rightarrow> (48 + d) # to_ascii cs | None \<Rightarrow> [63]))"

definition isdigit :: "nat \<Rightarrow> bool" where
  "isdigit c = (48 \<le> c \<and> c \<le> 57)"

text \<open>The blanks the two parsers skip around a number: \<open>\t\n\v\f\r\<close> and the space.\<close>

definition ascii_space :: "nat \<Rightarrow> bool" where
  "ascii_space c = ((9 \<le> c \<and> c \<le> 13) \<or> c = 32)"

definition digits_value :: "str \<Rightarrow> nat" where
  "digits_value ds = foldl (\<lambda>n d. 10 * n + (d - 48)) 0 ds"

definition sign_of :: "str \<Rightarrow> bool \<times> str" where
  "sign_of s = (case s of [] \<Rightarrow> (False, [])
     | c # cs \<Rightarrow> if c = 45 then (True, cs) else if c = 43 then (False, cs) else (False, s))"

text \<open>
  A parsed float. \<open>Finite q\<close> is the decimal number the text denotes; CPython rounds it
  to the nearest binary64 (to an infinity beyond the range of binary64), a function of
  \<open>q\<close> that the model does not carry out. \<open>Infinite True\<close> is minus infinity.
\<close>

datatype py_float = Finite rat | Infinite bool | NaN

text \<open>
  In \<open>float(s)\<close> an underscore may only stand between two digits; \<open>prev\<close> is the
  character before, 0 at the start.
\<close>

fun remove_underscores :: "nat \<Rightarrow> str \<Rightarrow> str option" where
  "remove_underscores prev [] = (if prev = 95 then None else Some [])"
| "remove_underscores prev (c # cs) =
     (if c = 95 then (if isdigit prev then remove_underscores c cs else None)
      else if prev = 95 \<and> \<not> isdigit c then None
      else map_option ((#) c) (remove_underscores c cs))"

definition lower :: "nat \<Rightarrow> nat" where
  "lower c = (if 65 \<le> c \<and> c \<le> 90 then c + 32 else c)"

definition exponent :: "str \<Rightarrow> int option" where
  "exponent s = (case s of [] \<Rightarrow> Some 0
     | c # cs \<Rightarrow>
         if c = 101 \<or> c = 69 then
           (case sign_of cs of (neg, ds) \<Rightarrow>
              if ds \<noteq> [] \<and> list_all isdigit ds
              then Some (if neg then - int (digits_value ds) else int (digits_value ds))
              else None)
         else None)"

definition scale :: "bool \<Rightarrow> nat \<Rightarrow> int \<Rightarrow> rat" where
  "scale neg m e =
     (let q = (if 0 \<le> e then of_nat m * 10 ^ nat e else of_nat m / 10 ^ nat (- e))
      in if neg then - q else q)"

text \<open>
  The number itself, which must be the whole of the text: a sign, then \<open>inf\<close>,
  \<open>infinity\<close> or \<open>nan\<close> in any case, or digits with at most one point and at least
  one digit, then an optional exponent.
\<close>

definition strtod :: "str \<Rightarrow> py_float option" where
  "strtod s =
     (case sign_of s of (neg, r) \<Rightarrow>
        if map lower r = ascii ''inf'' \<or> map lower r = ascii ''infinity'' then Some (Infinite neg)
        else if map lower r = ascii ''nan'' then Some NaN
        else
          let ip = takeWhile isdigit r;
              r1 = dropWhile isdigit r;
              pt = (r1 \<noteq> [] \<and> hd r1 = 46);
              fp = (if pt then takeWhile isdigit (tl r1) else []);
              r2 = (if pt then dropWhile isdigit (tl r1) else r1)
          in if ip = [] \<and> fp = [] then None
             else (case exponent r2 of None \<Rightarrow> None
                   | Some e \<Rightarrow> Some (Finite (scale neg (digits_value (ip @ fp)) (e - int (length fp))))))"

definition ascii_strip :: "str \<Rightarrow> str" where
  "ascii_strip s = rev (dropWhile ascii_space (rev (dropWhile ascii_space s)))"

definition float :: "str \<Rightarrow> py_error + py_float" where
  "float s =
     (case remove_underscores 0 (to_ascii s) of None \<Rightarrow> Inl ValueError
      | Some t \<Rightarrow> (case strtod (ascii_strip t) of None \<Rightarrow> Inl ValueError | Some v \<Rightarrow> Inr v))"

text \<open>
  \<open>int(s)\<close> in base ten: blanks, a sign, digits with single underscores between them,
  blanks. More than 4300 digits are refused (the default limit of CPython).
\<close>

definition py_int :: "str \<Rightarrow> py_error + int" where
  "py_int s =
     (case sign_of (dropWhile ascii_space (to_ascii s)) of (neg, r) \<Rightarrow>
        let run = takeWhile (\<lambda>c. isdigit c \<or> c = 95) r;
            rest = dropWhile (\<lambda>c. isdigit c \<or> c = 95) r;
            ds = filter isdigit run
        in if run = [] \<or> hd run = 95 \<or> last run = 95 \<or> contains run [95, 95]
              \<or> 4300 < length ds \<or> \<not> list_all ascii_space rest
           then Inl ValueError
           else Inr (if neg then - int (digits_value ds) else int (digits_value ds)))"

section \<open>Fetched pages\<close>

text \<open>
  The tree BeautifulSoup builds from a response body, as far as the scrapers look at
  it: the text of an element, its attributes, and for each CSS selector the elements
  below it that match, in document order. A tag is true in a condition whatever it
  holds, so \<open>if not tag\<close> asks whether the selector matched.
\<close>

datatype element =
  Element (get_text: str) (attrs: "(string \<times> str) list") (selection: "(string \<times> element list) list")

definition select :: "element \<Rightarrow> string \<Rightarrow> element list" where
  "select e sel = (case map_of (selection e) sel of None \<Rightarrow> [] | Some es \<Rightarrow> es)"

definition select_one :: "element \<Rightarrow> string \<Rightarrow> element option" where
  "select_one e sel = (case select e sel of [] \<Rightarrow> None | x # _ \<Rightarrow> Some x)"

definition get :: "element \<Rightarrow> string \<Rightarrow> str option" where
  "get e name = map_of (attrs e) name"

text \<open>\<open>a or b\<close> on two lookups.\<close>

definition or_else :: "'a option \<Rightarrow> 'a option \<Rightarrow> 'a option" where
  "or_else a b = (case a of Some x \<Rightarrow> Some x | None \<Rightarrow> b)"

text \<open>
  \<open>client.get(url, headers=HEADERS)\<close> followed by \<open>BeautifulSoup(resp.content,
  "html.parser")\<close>: the tree of the body received, whatever the status code (the source
  does not look at it), or the exception \<open>client.get\<close> raised. The network answers a
  URL the same way throughout one request.
\<close>

type_synonym client = "str \<Rightarrow> py_error + element"

section \<open>Data model\<close>

record RatingSource =
  source :: string
  rating :: "py_float option"
  vote_count :: "str option"
  url :: "str option"

record CombinedMovieData =
  query_title :: str
  year :: "str option"
  ratings :: "RatingSource list"

record UserRating =
  title :: str
  user_rating :: int
  timestamp :: "str option"

text \<open>\<open>RatingSource(source=s, rating=None)\<close>: the other fields take their default.\<close>

definition no_rating :: "string \<Rightarrow> RatingSource" where
  "no_rating s = \<lparr>source = s, rating = None, vote_count = None, url = None\<rparr>"

section \<open>Scrapers\<close>

text \<open>\<open>f"{title} {year}" if year else title\<close>: an empty year counts as no year.\<close>

definition search_query :: "str \<Rightarrow> str option \<Rightarrow> str" where
  "search_query ttl yr =
     (case yr of None \<Rightarrow> ttl | Some y \<Rightarrow> if y = [] then ttl else ttl @ ascii '' '' @ y)"

definition filmweb_search_url :: "str \<Rightarrow> str option \<Rightarrow> py_error + str" where
  "filmweb_search_url ttl yr =
     then_do (quote (search_query ttl yr)) (\<lambda>encoded_query.
       Inr (ascii ''https://www.filmweb.pl/search?q='' @ encoded_query))"

text \<open>The body of the \<open>try\<close> of \<open>scrape_filmweb\<close>.\<close>

definition scrape_filmweb_try :: "client \<Rightarrow> str \<Rightarrow> str option \<Rightarrow> py_error + RatingSource" where
  "scrape_filmweb_try client ttl yr =
     then_do (filmweb_search_url ttl yr) (\<lambda>search_url.
     then_do (client search_url) (\<lambda>soup.
       case or_else (select_one soup ''.resultsList .preview__link'')
                    (select_one soup ''.searchResult__link'') of
         None \<Rightarrow> Inr (no_rating ''Filmweb'')
       | Some result \<Rightarrow>
           then_do (case get result ''href'' of
                      None \<Rightarrow> Inl AttributeError
                    | Some href \<Rightarrow>
                        Inr (if startswith href (ascii ''/'')
                             then ascii ''https://www.filmweb.pl'' @ href else href)) (\<lambda>url.
           then_do (client url) (\<lambda>details_soup.
           then_do (case select_one details_soup ''.filmRating__rateValue'' of
                      None \<Rightarrow> Inr None
                    | Some rating_tag \<Rightarrow>
                        then_do (float (replace (strip (get_text rating_tag)) (ascii '','') (ascii ''.'')))
                          (\<lambda>r. Inr (Some r))) (\<lambda>rating.
           let count = (case select_one details_soup ''.filmRating__count'' of
                          None \<Rightarrow> None
                        | Some count_tag \<Rightarrow> Some (strip (get_text count_tag)))
           in Inr \<lparr>source = ''Filmweb'', rating = rating, vote_count = count, url = Some url\<rparr>)))))"

text \<open>
  \<open>except Exception\<close>: whatever the body raised, the scraper returns the entry without
  a rating. The result is written as an outcome that may be an exception, as
  \<open>asyncio.gather\<close> receives it.
\<close>

definition scrape_filmweb :: "client \<Rightarrow> str \<Rightarrow> str option \<Rightarrow> py_error + RatingSource" where
  "scrape_filmweb client ttl yr =
     (case scrape_filmweb_try client ttl yr of
        Inl e \<Rightarrow> Inr (no_rating ''Filmweb'')
      | Inr r \<Rightarrow> Inr r)"

definition imdb_search_url :: "str \<Rightarrow> str option \<Rightarrow> py_error + str" where
  "imdb_search_url ttl yr =
     then_do (quote (search_query ttl yr)) (\<lambda>encoded_query.
       Inr (ascii ''https://www.imdb.com/find?q='' @ encoded_query @ ascii ''&s=tt''))"

text \<open>
  \<open>f"https://www.imdb.com{href}".split("?")[0]\<close>: a missing \<open>href\<close> is formatted as
  the text \<open>None\<close>.
\<close>

definition imdb_movie_url :: "str option \<Rightarrow> py_error + str" where
  "imdb_movie_url href =
     getitem (split_at (ascii ''?'')
                (ascii ''https://www.imdb.com'' @ (case href of None \<Rightarrow> ascii ''None'' | Some h \<Rightarrow> h))) 0"

definition scrape_imdb_try :: "client \<Rightarrow> str \<Rightarrow> str option \<Rightarrow> py_error + RatingSource" where
  \<open>scrape_imdb_try client ttl yr =
     then_do (imdb_search_url ttl yr) (\<lambda>search_url.
     then_do (client search_url) (\<lambda>soup.
       case select_one soup ''.ipc-metadata-list-summary-item__t'' of
         None \<Rightarrow> Inr (no_rating ''IMDb'')
       | Some result_link \<Rightarrow>
           then_do (imdb_movie_url (get result_link ''href'')) (\<lambda>movie_url.
           then_do (client movie_url) (\<lambda>d_soup.
           then_do (case select_one d_soup
                           ''[data-testid="hero-rating-bar__aggregate-rating__score"] span'' of
                      None \<Rightarrow> Inr None
                    | Some rating_span \<Rightarrow>
                        then_do (float (strip (get_text rating_span))) (\<lambda>r. Inr (Some r))) (\<lambda>rating.
           let votes = (case select_one d_soup
                               ''div[data-testid="hero-rating-bar__aggregate-rating__score"] ~ div'' of
                          None \<Rightarrow> None
                        | Some votes_div \<Rightarrow> Some (strip (get_text votes_div)))
           in Inr \<lparr>source = ''IMDb'', rating = rating, vote_count = votes, url = Some movie_url\<rparr>)))))\<close>

definition scrape_imdb :: "client \<Rightarrow> str \<Rightarrow> str option \<Rightarrow> py_error + RatingSource" where
  "scrape_imdb client ttl yr =
     (case scrape_imdb_try client ttl yr of
        Inl e \<Rightarrow> Inr (no_rating ''IMDb'')
      | Inr r \<Rightarrow> Inr r)"

definition rotten_tomatoes_search_url :: "str \<Rightarrow> py_error + str" where
  "rotten_tomatoes_search_url ttl =
     then_do (quote ttl) (\<lambda>encoded_query.
       Inr (ascii ''https://www.rottentomatoes.com/search?search='' @ encoded_query))"

text \<open>
  The score of Rotten Tomatoes has a \<open>try\<close> of its own, whose bare \<open>except\<close> leaves
  the rating \<open>None\<close>.
\<close>

definition scrape_rotten_tomatoes_try :: "client \<Rightarrow> str \<Rightarrow> str option \<Rightarrow> py_error + RatingSource" where
  \<open>scrape_rotten_tomatoes_try client ttl yr =
     then_do (rotten_tomatoes_search_url ttl) (\<lambda>search_url.
     then_do (client search_url) (\<lambda>soup.
       case or_else (select_one soup ''search-page-result[type="movie"] a'')
                    (select_one soup ''#search-results movie-search-result-container a'') of
         None \<Rightarrow> Inr (no_rating ''Rotten Tomatoes'')
       | Some movie_link \<Rightarrow>
           then_do (case get movie_link ''href'' of
                      None \<Rightarrow> Inl AttributeError
                    | Some href \<Rightarrow>
                        Inr (if \<not> startswith href (ascii ''http'')
                             then ascii ''https://www.rottentomatoes.com'' @ href else href)) (\<lambda>full_url.
           then_do (client full_url) (\<lambda>d_soup.
           let rating =
                 (case or_else (select_one d_soup ''rt-button[slot="criticsScore"] rt-text'')
                               (select_one d_soup ''score-board-band rt-text'') of
                    None \<Rightarrow> None
                  | Some score_tag \<Rightarrow>
                      (case float (replace (strip (get_text score_tag)) (ascii ''%'') []) of
                         Inl e \<Rightarrow> None
                       | Inr r \<Rightarrow> Some r))
           in Inr \<lparr>source = ''Rotten Tomatoes'', rating = rating, vote_count = None,
                   url = Some full_url\<rparr>))))\<close>

definition scrape_rotten_tomatoes :: "client \<Rightarrow> str \<Rightarrow> str option \<Rightarrow> py_error + RatingSource" where
  "scrape_rotten_tomatoes client ttl yr =
     (case scrape_rotten_tomatoes_try client ttl yr of
        Inl e \<Rightarrow> Inr (no_rating ''Rotten Tomatoes'')
      | Inr r \<Rightarrow> Inr r)"

section \<open>The recent ratings of a user\<close>

text \<open>The phrase \<open>ocenil na\<close> of the profile page, its sixth letter being U+0142.\<close>

definition phrase :: str where
  "phrase = ascii ''oceni'' @ [322] @ ascii '' na''"

text \<open>
  The body of the \<open>for\<close> loop, for one entry: it appends a rating (\<open>Some\<close>), appends
  nothing (\<open>None\<close>), or raises. The structured element \<open>.userRate\<close> is looked up, and
  the free text is read only when it is absent.
\<close>

definition rate_item :: "element \<Rightarrow> py_error + UserRating option" where
  "rate_item item =
     (let title_tag = select_one item ''.filmTitle'';
          rate_tag = select_one item ''.userRate''
      in if rate_tag = None then
           (case select_one item ''.span-10'' of
              None \<Rightarrow> Inr None
            | Some rate_box \<Rightarrow>
                if contains (get_text rate_box) phrase then
                  then_do (getitem (split_at phrase (get_text rate_box)) 1) (\<lambda>after.
                  then_do (getitem (split_at (ascii '' '') (strip after)) 0) (\<lambda>rate_text.
                  then_do (case title_tag of
                             None \<Rightarrow> Inl AttributeError
                           | Some t \<Rightarrow> Inr (strip (get_text t))) (\<lambda>title_text.
                  then_do (py_int rate_text) (\<lambda>rate.
                    Inr (Some \<lparr>title = title_text, user_rating = rate, timestamp = None\<rparr>)))))
                else Inr None)
         else Inr None)"

text \<open>
  The loop over the entries; \<open>rs\<close> is the list \<open>ratings\<close> built so far. An exception
  in one entry leaves the loop.
\<close>

fun rate_items :: "element list \<Rightarrow> UserRating list \<Rightarrow> py_error + UserRating list" where
  "rate_items [] rs = Inr rs"
| "rate_items (item # items) rs =
     (case rate_item item of
        Inl e \<Rightarrow> Inl e
      | Inr None \<Rightarrow> rate_items items rs
      | Inr (Some r) \<Rightarrow> rate_items items (rs @ [r]))"

definition user_url :: "str \<Rightarrow> str" where
  "user_url username = ascii ''https://www.filmweb.pl/user/'' @ username"

definition scrape_filmweb_user_recent_try :: "client \<Rightarrow> str \<Rightarrow> py_error + UserRating list" where
  "scrape_filmweb_user_recent_try client username =
     then_do (client (user_url username)) (\<lambda>soup.
       rate_items (select soup ''.voteCommentBox'') [])"

definition scrape_filmweb_user_recent :: "client \<Rightarrow> str \<Rightarrow> py_error + UserRating list" where
  "scrape_filmweb_user_recent client username =
     (case scrape_filmweb_user_recent_try client username of
        Inl e \<Rightarrow> Inr []
      | Inr r \<Rightarrow> Inr r)"

section \<open>The combined ratings\<close>

text \<open>
  \<open>asyncio.gather\<close>: the awaitables run concurrently and each, when it completes,
  leaves its result in the slot of its own position. \<open>finish i\<close> is the time at which
  the awaitable at position \<open>i\<close> completes, so the awaitables settle in the order of
  their finishing times; the first exception met is raised to the caller, and otherwise
  the slots are returned in the order of the arguments.
\<close>

fun settle :: "(py_error + 'a) list \<Rightarrow> nat list \<Rightarrow> 'a option list \<Rightarrow> py_error + 'a option list" where
  "settle aws [] slots = Inr slots"
| "settle aws (i # order) slots =
     (case aws ! i of
        Inl e \<Rightarrow> Inl e
      | Inr v \<Rightarrow> settle aws order (slots[i := Some v]))"

definition gather :: "(nat \<Rightarrow> nat) \<Rightarrow> (py_error + 'a) list \<Rightarrow> py_error + 'a list" where
  "gather finish aws =
     then_do (settle aws (sort_key finish [0..<length aws]) (replicate (length aws) None))
       (\<lambda>slots. Inr [v. Some v \<leftarrow> slots])"

definition get_all_ratings :: "client \<Rightarrow> (nat \<Rightarrow> nat) \<Rightarrow> str \<Rightarrow> str option \<Rightarrow> py_error + CombinedMovieData" where
  "get_all_ratings client finish ttl yr =
     then_do (gather finish [scrape_filmweb client ttl yr,
                             scrape_imdb client ttl yr,
                             scrape_rotten_tomatoes client ttl yr]) (\<lambda>results.
       Inr \<lparr>query_title = ttl, year = yr, ratings = results\<rparr>)"

section \<open>Percent-decoding\<close>

text \<open>
  Percent-decoding, to say what a quoted text stands for: \<open>%XX\<close> with two
  hexadecimal digits is the byte \<open>XX\<close>, every other character is itself.
\<close>

definition hexval :: "nat \<Rightarrow> nat option" where
  "hexval c =
     (if 48 \<le> c \<and> c \<le> 57 then Some (c - 48)
      else if 65 \<le> c \<and> c \<le> 70 then Some (c - 55)
      else if 97 \<le> c \<and> c \<le> 102 then Some (c - 87)
      else None)"

fun unquote :: "str \<Rightarrow> nat list" where
  "unquote (p # h # l # rest) =
     (if p = 37 then
        (case (hexval h, hexval l) of
           (Some a, Some b) \<Rightarrow> (16 * a + b) # unquote rest
         | _ \<Rightarrow> p # unquote (h # l # rest))
      else p # unquote (h # l # rest))"
| "unquote (c # cs) = c # unquote cs"
| "unquote [] = []"


section \<open>Pages and networks for concrete evaluation\<close>

text \<open>A network on which every request fails, and one that answers every URL with one page.\<close>

definition offline :: client where
  "offline u = Inl HTTPError"

definition serving :: "element \<Rightarrow> client" where
  "serving page u = Inr page"

text \<open>
  An entry of a profile page with a title element and a free-text container, and no
  structured rating element; a profile page with the entries given.
\<close>

definition profile_entry :: "string \<Rightarrow> str \<Rightarrow> element" where
  "profile_entry t txt =
     Element [] [] [(''.filmTitle'', [Element (ascii t) [] []]), (''.span-10'', [Element txt [] []])]"

definition profile_page :: "element list \<Rightarrow> element" where
  "profile_page entries = Element [] [] [(''.voteCommentBox'', entries)]"

text \<open>
  Two entries with the phrase: the first rates Matrix 7, the second has a word where the
  number should be.
\<close>

definition broken_profile :: element where
  "broken_profile = profile_page
     [profile_entry ''Matrix'' (ascii ''jan '' @ phrase @ ascii '' 7 gwiazdek''),
      profile_entry ''Alien'' (ascii ''jan '' @ phrase @ ascii '' osiem'')]"

text \<open>
  A network that answers the URLs listed with the page beside them and fails on every
  other; a link with a label and an \<open>href\<close>.
\<close>

definition site :: "(str \<times> element) list \<Rightarrow> client" where
  "site pages u = (case map_of pages u of None \<Rightarrow> Inl HTTPError | Some page \<Rightarrow> Inr page)"

definition link :: "string \<Rightarrow> string \<Rightarrow> element" where
  "link label href = Element (ascii label) [(''href'', ascii href)] []"

text \<open>
  Filmweb with one search result for \<open>Matrix 1999\<close>, whose detail page shows the
  score text given.
\<close>

definition filmweb_site :: "string \<Rightarrow> client" where
  "filmweb_site score = site
     [(ascii ''https://www.filmweb.pl/search?q=Matrix%201999'',
       Element [] [] [(''.resultsList .preview__link'', [link ''Matrix'' ''/film/Matrix-1999-628''])]),
      (ascii ''https://www.filmweb.pl/film/Matrix-1999-628'',
       Element [] [] [(''.filmRating__rateValue'', [Element (ascii score) [] []]),
                      (''.filmRating__count'', [Element (ascii ''771 tys. ocen'') [] []])])]"

text \<open>
  IMDb with one search result, whose link carries a query string and whose detail page
  shows the score text given.
\<close>

definition imdb_site :: "string \<Rightarrow> client" where
  \<open>imdb_site score = site
     [(ascii ''https://www.imdb.com/find?q=Matrix%201999&s=tt'',
       Element [] [] [(''.ipc-metadata-list-summary-item__t'',
                       [link ''The Matrix'' ''/title/tt0133093/?ref_=fn_all_ttl_1''])]),
      (ascii ''https://www.imdb.com/title/tt0133093/'',
       Element [] [] [(''[data-testid="hero-rating-bar__aggregate-rating__score"] span'',
                       [Element (ascii score) [] []]),
                      (''div[data-testid="hero-rating-bar__aggregate-rating__score"] ~ div'',
                       [Element (ascii ''2.1M'') [] []])])]\<close>


text \<open>
  Rotten Tomatoes with one search result for \<open>Matrix\<close>, whose detail page shows the
  score text given.
\<close>

definition rotten_tomatoes_site :: "string \<Rightarrow> client" where
  \<open>rotten_tomatoes_site score = site
     [(ascii ''https://www.rottentomatoes.com/search?search=Matrix'',
       Element [] [] [(''search-page-result[type="movie"] a'',
                       [link ''The Matrix'' ''https://www.rottentomatoes.com/m/matrix''])]),
      (ascii ''https://www.rottentomatoes.com/m/matrix'',
       Element [] [] [(''rt-button[slot="criticsScore"] rt-text'', [Element (ascii score) [] []])])]\<close>

text \<open>An entry of a profile page with a title and the structured rating element.\<close>

definition structured_entry :: "string \<Rightarrow> string \<Rightarrow> element" where
  "structured_entry t rate =
     Element [] [] [(''.filmTitle'', [Element (ascii t) [] []]), (''.userRate'', [Element (ascii rate) [] []])]"






section \<open>Properties\<close>

lemmas eval_defs =
  ascii_def then_do_def getitem_def strip_def isspace_def ascii_strip_def ascii_space_def
  isdigit_def sign_of_def select_def select_one_def get_def or_else_def no_rating_def
  phrase_def profile_entry_def profile_page_def offline_def serving_def user_url_def

lemma rate_items_broken_profile:
  "rate_items (select broken_profile ''.voteCommentBox'') [] = Inl ValueError"
  by (simp add: broken_profile_def rate_item_def eval_defs py_int_def)

text \<open>
  C7: \<open>scrape_filmweb_user_recent\<close> returns a list for every network and every user
  name, and the list is empty whenever the request for the profile page fails or the
  pass over the entries of the page raises.
\<close>

theorem recent_activity_never_fails:
  "(\<exists>rs. scrape_filmweb_user_recent client username = Inr rs) \<and>
   (\<forall>e. client (user_url username) = Inl e \<or>
         (\<exists>soup. client (user_url username) = Inr soup \<and>
                 rate_items (select soup ''.voteCommentBox'') [] = Inl e)
        \<longrightarrow> scrape_filmweb_user_recent client username = Inr [])"
  by (auto simp: scrape_filmweb_user_recent_def scrape_filmweb_user_recent_try_def then_do_def
           split: sum.splits)

theorem recent_activity_never_fails_witness:
  "offline (user_url (ascii ''jan'')) = Inl HTTPError \<and>
   scrape_filmweb_user_recent offline (ascii ''jan'') = Inr [] \<and>
   serving broken_profile (user_url (ascii ''jan'')) = Inr broken_profile \<and>
   rate_items (select broken_profile ''.voteCommentBox'') [] = Inl ValueError \<and>
   scrape_filmweb_user_recent (serving broken_profile) (ascii ''jan'') = Inr []"
  using recent_activity_never_fails [of offline "ascii ''jan''"]
        recent_activity_never_fails [of "serving broken_profile" "ascii ''jan''"]
        rate_items_broken_profile
  by (simp add: offline_def serving_def)

subsection \<open>The join of the three scrapers\<close>

lemma settle_all_returned:
  "set order \<subseteq> {..<length vs} \<Longrightarrow>
   settle (map Inr vs) order slots = Inr (fold (\<lambda>i s. s[i := Some (vs ! i)]) order slots)"
  by (induction order arbitrary: slots) auto

lemma fold_slots_length:
  "length (fold (\<lambda>i s. s[i := Some (vs ! i)]) order slots) = length slots"
  by (induction order arbitrary: slots) auto

lemma fold_slots_nth:
  "j < length slots \<Longrightarrow>
   fold (\<lambda>i s. s[i := Some (vs ! i)]) order slots ! j =
     (if j \<in> set order then Some (vs ! j) else slots ! j)"
  by (induction order arbitrary: slots) (auto simp: nth_list_update)

lemma fold_slots_full:
  assumes "set order = {..<length vs}"
  shows "fold (\<lambda>i s. s[i := Some (vs ! i)]) order (replicate (length vs) None) = map Some vs"
  by (rule nth_equalityI) (auto simp: fold_slots_length fold_slots_nth assms)

lemma somes_map_Some: "[v. Some v \<leftarrow> map Some vs] = vs"
  by (induction vs) auto

lemma gather_all_returned: "gather finish (map Inr vs) = Inr vs"
proof -
  have "set (sort_key finish [0..<length vs]) = {..<length vs}"
    by auto
  then have "settle (map Inr vs) (sort_key finish [0..<length vs]) (replicate (length vs) None)
               = Inr (map Some vs)"
    by (simp add: settle_all_returned fold_slots_full)
  then have "gather finish (map Inr vs) = Inr [v. Some v \<leftarrow> map Some vs]"
    by (simp add: gather_def then_do_def)
  then show ?thesis
    by (simp only: somes_map_Some)
qed

lemma gather_three: "gather finish [Inr a, Inr b, Inr c] = Inr [a, b, c]"
  using gather_all_returned [of finish "[a, b, c]"] by simp


lemma then_doE:
  assumes "then_do m f = Inr r"
  obtains x where "m = Inr x" and "f x = Inr r"
  using assms by (cases m) (auto simp: then_do_def)

lemma scrape_filmweb_try_source: "scrape_filmweb_try client ttl yr = Inr r \<Longrightarrow> source r = ''Filmweb''"
  unfolding scrape_filmweb_try_def
  by (auto simp: no_rating_def Let_def elim!: then_doE split: option.splits)

lemma scrape_imdb_try_source: "scrape_imdb_try client ttl yr = Inr r \<Longrightarrow> source r = ''IMDb''"
  unfolding scrape_imdb_try_def
  by (auto simp: no_rating_def Let_def elim!: then_doE split: option.splits)

lemma scrape_rotten_tomatoes_try_source:
  "scrape_rotten_tomatoes_try client ttl yr = Inr r \<Longrightarrow> source r = ''Rotten Tomatoes''"
  unfolding scrape_rotten_tomatoes_try_def
  by (auto simp: no_rating_def Let_def elim!: then_doE split: option.splits)

lemma scrape_filmweb_returns: "\<exists>r. scrape_filmweb client ttl yr = Inr r \<and> source r = ''Filmweb''"
  by (auto simp: scrape_filmweb_def no_rating_def split: sum.splits dest: scrape_filmweb_try_source)

lemma scrape_imdb_returns: "\<exists>r. scrape_imdb client ttl yr = Inr r \<and> source r = ''IMDb''"
  by (auto simp: scrape_imdb_def no_rating_def split: sum.splits dest: scrape_imdb_try_source)

lemma scrape_rotten_tomatoes_returns:
  "\<exists>r. scrape_rotten_tomatoes client ttl yr = Inr r \<and> source r = ''Rotten Tomatoes''"
  by (auto simp: scrape_rotten_tomatoes_def no_rating_def split: sum.splits
           dest: scrape_rotten_tomatoes_try_source)

text \<open>
  C1: for every network, title and year, and whatever the finishing times of the three
  scrapers are, \<open>get_all_ratings\<close> returns a record whose \<open>ratings\<close> are exactly
  three: the result of the Filmweb scraper, of the IMDb scraper and of the Rotten
  Tomatoes scraper, in this order, each carrying the name of its source.
\<close>

theorem combined_ratings_order:
  "\<exists>fw im rt.
     scrape_filmweb client ttl yr = Inr fw \<and>
     scrape_imdb client ttl yr = Inr im \<and>
     scrape_rotten_tomatoes client ttl yr = Inr rt \<and>
     get_all_ratings client finish ttl yr = Inr \<lparr>query_title = ttl, year = yr, ratings = [fw, im, rt]\<rparr> \<and>
     length [fw, im, rt] = 3 \<and>
     map source [fw, im, rt] = [''Filmweb'', ''IMDb'', ''Rotten Tomatoes'']"
proof -
  obtain fw where fw: "scrape_filmweb client ttl yr = Inr fw" "source fw = ''Filmweb''"
    using scrape_filmweb_returns by blast
  obtain im where im: "scrape_imdb client ttl yr = Inr im" "source im = ''IMDb''"
    using scrape_imdb_returns by blast
  obtain rt where rt: "scrape_rotten_tomatoes client ttl yr = Inr rt" "source rt = ''Rotten Tomatoes''"
    using scrape_rotten_tomatoes_returns by blast
  have "get_all_ratings client finish ttl yr = Inr \<lparr>query_title = ttl, year = yr, ratings = [fw, im, rt]\<rparr>"
    by (simp add: get_all_ratings_def fw im rt gather_three then_do_def)
  with fw im rt show ?thesis by simp
qed

lemma scrape_filmweb_offline:
  assumes "\<forall>u. \<exists>e. client u = Inl e"
  shows "scrape_filmweb client ttl yr = Inr (no_rating ''Filmweb'')"
proof -
  have "\<exists>e. scrape_filmweb_try client ttl yr = Inl e"
  proof (cases "filmweb_search_url ttl yr")
    case (Inl e)
    then show ?thesis
      by (simp add: scrape_filmweb_try_def then_do_def)
  next
    case (Inr u)
    obtain e where "client u = Inl e"
      using assms by blast
    with Inr show ?thesis
      by (simp add: scrape_filmweb_try_def then_do_def)
  qed
  then show ?thesis
    by (auto simp: scrape_filmweb_def)
qed

lemma scrape_imdb_offline:
  assumes "\<forall>u. \<exists>e. client u = Inl e"
  shows "scrape_imdb client ttl yr = Inr (no_rating ''IMDb'')"
proof -
  have "\<exists>e. scrape_imdb_try client ttl yr = Inl e"
  proof (cases "imdb_search_url ttl yr")
    case (Inl e)
    then show ?thesis
      by (simp add: scrape_imdb_try_def then_do_def)
  next
    case (Inr u)
    obtain e where "client u = Inl e"
      using assms by blast
    with Inr show ?thesis
      by (simp add: scrape_imdb_try_def then_do_def)
  qed
  then show ?thesis
    by (auto simp: scrape_imdb_def)
qed

lemma scrape_rotten_tomatoes_offline:
  assumes "\<forall>u. \<exists>e. client u = Inl e"
  shows "scrape_rotten_tomatoes client ttl yr = Inr (no_rating ''Rotten Tomatoes'')"
proof -
  have "\<exists>e. scrape_rotten_tomatoes_try client ttl yr = Inl e"
  proof (cases "rotten_tomatoes_search_url ttl")
    case (Inl e)
    then show ?thesis
      by (simp add: scrape_rotten_tomatoes_try_def then_do_def)
  next
    case (Inr u)
    obtain e where "client u = Inl e"
      using assms by blast
    with Inr show ?thesis
      by (simp add: scrape_rotten_tomatoes_try_def then_do_def)
  qed
  then show ?thesis
    by (auto simp: scrape_rotten_tomatoes_def)
qed

text \<open>
  C2: \<open>get_all_ratings\<close> returns a record for every input, never an exception; and
  when every request of the network fails, the record holds the three entries in
  order, each with no rating (and no vote count and no URL).
\<close>

theorem combined_ratings_never_raises:
  "(\<exists>c. get_all_ratings client finish ttl yr = Inr c) \<and>
   ((\<forall>u. \<exists>e. client u = Inl e) \<longrightarrow>
      get_all_ratings client finish ttl yr =
        Inr \<lparr>query_title = ttl, year = yr,
             ratings = [\<lparr>source = ''Filmweb'', rating = None, vote_count = None, url = None\<rparr>,
                        \<lparr>source = ''IMDb'', rating = None, vote_count = None, url = None\<rparr>,
                        \<lparr>source = ''Rotten Tomatoes'', rating = None, vote_count = None, url = None\<rparr>]\<rparr>)"
proof -
  obtain fw im rt where
    "scrape_filmweb client ttl yr = Inr fw" "scrape_imdb client ttl yr = Inr im"
    "scrape_rotten_tomatoes client ttl yr = Inr rt"
    using scrape_filmweb_returns scrape_imdb_returns scrape_rotten_tomatoes_returns by blast
  then have "\<exists>c. get_all_ratings client finish ttl yr = Inr c"
    by (simp add: get_all_ratings_def gather_three then_do_def)
  moreover have "get_all_ratings client finish ttl yr =
      Inr \<lparr>query_title = ttl, year = yr,
           ratings = [no_rating ''Filmweb'', no_rating ''IMDb'', no_rating ''Rotten Tomatoes'']\<rparr>"
    if "\<forall>u. \<exists>e. client u = Inl e"
    using that
    by (simp add: get_all_ratings_def scrape_filmweb_offline scrape_imdb_offline
          scrape_rotten_tomatoes_offline gather_three then_do_def)
  ultimately show ?thesis
    by (simp add: no_rating_def)
qed

theorem combined_ratings_never_raises_witness:
  "(\<forall>u. \<exists>e. offline u = Inl e) \<and>
   get_all_ratings offline (\<lambda>i. 0) (ascii ''Matrix'') (Some (ascii ''1999'')) =
     Inr \<lparr>query_title = ascii ''Matrix'', year = Some (ascii ''1999''),
          ratings = [\<lparr>source = ''Filmweb'', rating = None, vote_count = None, url = None\<rparr>,
                     \<lparr>source = ''IMDb'', rating = None, vote_count = None, url = None\<rparr>,
                     \<lparr>source = ''Rotten Tomatoes'', rating = None, vote_count = None, url = None\<rparr>]\<rparr>"
proof -
  have h: "\<forall>u. \<exists>e. offline u = Inl e"
    by (simp add: offline_def)
  with combined_ratings_never_raises [of offline "\<lambda>i. 0" "ascii ''Matrix''" "Some (ascii ''1999'')"]
  show ?thesis
    by blast
qed

subsection \<open>Filmweb: the decimal comma\<close>

lemma float_8_6: "float (ascii ''8.6'') = Inr (Finite (86 / 10))"
  by (simp add: float_def ascii_def strtod_def sign_of_def lower_def isdigit_def exponent_def
        scale_def digits_value_def ascii_strip_def ascii_space_def Let_def)

lemma replace_8_6: "replace (ascii ''8,6'') (ascii '','') (ascii ''.'') = ascii ''8.6''"
  by (simp add: replace_def ascii_def)


text \<open>
  C9: when the Filmweb scraper reaches a detail page whose score element reads
  \<open>8,6\<close> once the surrounding whitespace is stripped, the rating it returns is the
  float of \<open>8.6\<close>: the comma is replaced by a point before the text is parsed.
\<close>

theorem filmweb_decimal_comma:
  assumes "filmweb_search_url ttl yr = Inr search_url"
      and "client search_url = Inr soup"
      and "or_else (select_one soup ''.resultsList .preview__link'')
                   (select_one soup ''.searchResult__link'') = Some result"
      and "get result ''href'' = Some href"
      and "client (if startswith href (ascii ''/'') then ascii ''https://www.filmweb.pl'' @ href else href)
             = Inr details_soup"
      and "select_one details_soup ''.filmRating__rateValue'' = Some rating_tag"
      and "strip (get_text rating_tag) = ascii ''8,6''"
  shows "\<exists>r. scrape_filmweb client ttl yr = Inr r \<and> rating r = Some (Finite (86 / 10))"
  using assms
  by (simp add: scrape_filmweb_def scrape_filmweb_try_def then_do_def replace_8_6 float_8_6)

lemma filmweb_search_url_Matrix:
  "filmweb_search_url (ascii ''Matrix'') (Some (ascii ''1999'')) =
     Inr (ascii ''https://www.filmweb.pl/search?q=Matrix%201999'')"
  by (simp add: filmweb_search_url_def search_query_def quote_def utf8_def quote_byte_def
        always_safe_def hexdigit_def ascii_def then_do_def)


lemmas site_defs = site_def link_def filmweb_site_def

theorem filmweb_decimal_comma_witness:
  "\<exists>r. scrape_filmweb (filmweb_site '' 8,6 '') (ascii ''Matrix'') (Some (ascii ''1999'')) = Inr r \<and>
       rating r = Some (Finite (86 / 10))"
proof -
  let ?client = "filmweb_site '' 8,6 ''"
  let ?result = "link ''Matrix'' ''/film/Matrix-1999-628''"
  let ?soup = "Element [] [] [(''.resultsList .preview__link'', [?result])]"
  let ?tag = "Element (ascii '' 8,6 '') [] []"
  let ?details = "Element [] [] [(''.filmRating__rateValue'', [?tag]),
                                 (''.filmRating__count'', [Element (ascii ''771 tys. ocen'') [] []])]"
  have 1: "?client (ascii ''https://www.filmweb.pl/search?q=Matrix%201999'') = Inr ?soup"
    by (simp add: site_defs ascii_def)
  have 2: "or_else (select_one ?soup ''.resultsList .preview__link'')
                   (select_one ?soup ''.searchResult__link'') = Some ?result"
    by (simp add: or_else_def select_one_def select_def)
  have 3: "get ?result ''href'' = Some (ascii ''/film/Matrix-1999-628'')"
    by (simp add: get_def link_def)
  have 4: "?client (if startswith (ascii ''/film/Matrix-1999-628'') (ascii ''/'')
                    then ascii ''https://www.filmweb.pl'' @ ascii ''/film/Matrix-1999-628''
                    else ascii ''/film/Matrix-1999-628'') = Inr ?details"
    by (simp add: site_defs ascii_def)
  have 5: "select_one ?details ''.filmRating__rateValue'' = Some ?tag"
    by (simp add: select_one_def select_def)
  have 6: "strip (get_text ?tag) = ascii ''8,6''"
    by (simp add: strip_def isspace_def ascii_def)
  show ?thesis
    by (rule filmweb_decimal_comma [OF filmweb_search_url_Matrix 1 2 3 4 5 6])
qed

text \<open>
  The definitions to unfold for evaluating a scraper on a concrete network, and the
  evaluation of the Filmweb scraper on the page above.
\<close>

lemmas scrape_eval =
  scrape_filmweb_def scrape_filmweb_try_def filmweb_search_url_def
  scrape_imdb_def scrape_imdb_try_def imdb_search_url_def imdb_movie_url_def
  scrape_rotten_tomatoes_def scrape_rotten_tomatoes_try_def rotten_tomatoes_search_url_def
  search_query_def quote_def utf8_def quote_byte_def always_safe_def hexdigit_def
  replace_def float_def strtod_def lower_def exponent_def scale_def digits_value_def Let_def

lemma filmweb_site_8_6:
  "scrape_filmweb (filmweb_site '' 8,6 '') (ascii ''Matrix'') (Some (ascii ''1999'')) =
     Inr \<lparr>source = ''Filmweb'', rating = Some (Finite (86 / 10)),
          vote_count = Some (ascii ''771 tys. ocen''),
          url = Some (ascii ''https://www.filmweb.pl/film/Matrix-1999-628'')\<rparr>"
  by (simp add: scrape_eval site_defs eval_defs)

subsection \<open>IMDb: the URL reported\<close>

lemma startswith_single: "startswith s [c] \<longleftrightarrow> s \<noteq> [] \<and> hd s = c"
  by (cases s) auto

lemma contains_single: "contains s [c] \<longleftrightarrow> c \<in> set s"
  by (induction s) (auto simp: startswith_single)

lemma split_at_not_Nil: "split_at sep s \<noteq> []"
  by (induction sep s rule: split_at.induct) (auto split: list.splits)

lemma hd_split_at_single: "hd (split_at [c] s) = takeWhile (\<lambda>x. x \<noteq> c) s"
  by (induction s) (auto simp: startswith_single split_at_not_Nil split: list.splits)

lemma getitem_split_at_single: "getitem (split_at [c] s) 0 = Inr (takeWhile (\<lambda>x. x \<noteq> c) s)"
  using split_at_not_Nil [of "[c]" s] hd_split_at_single [of c s]
  by (cases "split_at [c] s") (auto simp: getitem_def)

lemma imdb_movie_url_eq:
  "imdb_movie_url href = Inr (takeWhile (\<lambda>x. x \<noteq> 63)
     (ascii ''https://www.imdb.com'' @ (case href of None \<Rightarrow> ascii ''None'' | Some h \<Rightarrow> h)))"
proof -
  have "ascii ''?'' = [63]" by (simp add: ascii_def)
  then show ?thesis
    by (simp add: imdb_movie_url_def getitem_split_at_single)
qed

lemma takeWhile_truncates:
  "\<exists>rest. s = takeWhile (\<lambda>x. x \<noteq> c) s @ rest \<and> (rest = [] \<or> startswith rest [c])"
proof -
  have "s = takeWhile (\<lambda>x. x \<noteq> c) s @ dropWhile (\<lambda>x. x \<noteq> c) s"
    by simp
  moreover have "dropWhile (\<lambda>x. x \<noteq> c) s = [] \<or> startswith (dropWhile (\<lambda>x. x \<noteq> c) s) [c]"
    using hd_dropWhile [of "\<lambda>x. x \<noteq> c" s] by (auto simp: startswith_single)
  ultimately show ?thesis by blast
qed

lemma scrape_imdb_try_url:
  assumes "scrape_imdb_try client ttl yr = Inr r" and "url r = Some u"
  shows "\<exists>search_url soup result_link.
           imdb_search_url ttl yr = Inr search_url \<and> client search_url = Inr soup \<and>
           select_one soup ''.ipc-metadata-list-summary-item__t'' = Some result_link \<and>
           imdb_movie_url (get result_link ''href'') = Inr u"
  using assms unfolding scrape_imdb_try_def
  by (auto simp: no_rating_def Let_def elim!: then_doE split: option.splits)

text \<open>
  C10: whenever the IMDb scraper returns an entry with a URL, the URL holds no question
  mark, and it comes from the link of the first search result: the IMDb origin followed
  by the \<open>href\<close> of the link, cut before the first question mark.
\<close>

theorem imdb_url_without_query:
  assumes "scrape_imdb client ttl yr = Inr r" and "url r = Some u"
  shows "\<not> contains u (ascii ''?'') \<and>
         (\<exists>search_url soup result_link.
            imdb_search_url ttl yr = Inr search_url \<and> client search_url = Inr soup \<and>
            select_one soup ''.ipc-metadata-list-summary-item__t'' = Some result_link \<and>
            (\<forall>href. get result_link ''href'' = Some href \<longrightarrow>
               (\<exists>rest. ascii ''https://www.imdb.com'' @ href = u @ rest \<and>
                       (rest = [] \<or> startswith rest (ascii ''?'')))))"
proof -
  have q: "ascii ''?'' = [63]" by (simp add: ascii_def)
  from assms have "scrape_imdb_try client ttl yr = Inr r"
    by (auto simp: scrape_imdb_def no_rating_def split: sum.splits)
  from scrape_imdb_try_url [OF this assms(2)]
  obtain search_url soup result_link where
    s: "imdb_search_url ttl yr = Inr search_url" "client search_url = Inr soup"
       "select_one soup ''.ipc-metadata-list-summary-item__t'' = Some result_link" and
    u: "imdb_movie_url (get result_link ''href'') = Inr u"
    by blast
  from u have u': "u = takeWhile (\<lambda>x. x \<noteq> 63)
     (ascii ''https://www.imdb.com'' @ (case get result_link ''href'' of None \<Rightarrow> ascii ''None'' | Some h \<Rightarrow> h))"
    by (simp add: imdb_movie_url_eq)
  then have "63 \<notin> set u"
    by (auto dest: set_takeWhileD)
  then have "\<not> contains u (ascii ''?'')"
    by (simp add: q contains_single)
  moreover have "\<exists>rest. ascii ''https://www.imdb.com'' @ href = u @ rest \<and>
                       (rest = [] \<or> startswith rest (ascii ''?''))"
    if "get result_link ''href'' = Some href" for href
    using that u' takeWhile_truncates [of "ascii ''https://www.imdb.com'' @ href" 63]
    by (simp add: q)
  ultimately show ?thesis
    using s by blast
qed

lemma imdb_site_Matrix:
  "scrape_imdb (imdb_site ''8.7'') (ascii ''Matrix'') (Some (ascii ''1999'')) =
     Inr \<lparr>source = ''IMDb'', rating = Some (Finite (87 / 10)), vote_count = Some (ascii ''2.1M''),
          url = Some (ascii ''https://www.imdb.com/title/tt0133093/'')\<rparr>"
  by (simp add: scrape_eval site_def link_def imdb_site_def eval_defs)

theorem imdb_url_without_query_witness:
  "scrape_imdb (imdb_site ''8.7'') (ascii ''Matrix'') (Some (ascii ''1999'')) =
     Inr \<lparr>source = ''IMDb'', rating = Some (Finite (87 / 10)), vote_count = Some (ascii ''2.1M''),
          url = Some (ascii ''https://www.imdb.com/title/tt0133093/'')\<rparr> \<and>
   \<not> contains (ascii ''https://www.imdb.com/title/tt0133093/'') (ascii ''?'')"
  using imdb_url_without_query [OF imdb_site_Matrix, of "ascii ''https://www.imdb.com/title/tt0133093/''"]
        imdb_site_Matrix
  by simp

subsection \<open>Rotten Tomatoes: the percentage\<close>

lemma float_92: "float (ascii ''92'') = Inr (Finite 92)"
  by (simp add: float_def ascii_def strtod_def sign_of_def lower_def isdigit_def exponent_def
        scale_def digits_value_def ascii_strip_def ascii_space_def Let_def)

lemma replace_92: "replace (ascii ''92%'') (ascii ''%'') [] = ascii ''92''"
  by (simp add: replace_def ascii_def)

lemma scrape_rotten_tomatoes_try_vote_count:
  "scrape_rotten_tomatoes_try client ttl yr = Inr r \<Longrightarrow> vote_count r = None"
  unfolding scrape_rotten_tomatoes_try_def
  by (auto simp: no_rating_def Let_def elim!: then_doE split: option.splits)

lemma scrape_rotten_tomatoes_vote_count:
  "scrape_rotten_tomatoes client ttl yr = Inr r \<Longrightarrow> vote_count r = None"
  by (auto simp: scrape_rotten_tomatoes_def no_rating_def split: sum.splits
           dest: scrape_rotten_tomatoes_try_vote_count)

text \<open>
  C8: the Rotten Tomatoes scraper always returns an entry without a vote count; and when
  it reaches a detail page whose score element reads \<open>92%\<close> once the surrounding
  whitespace is stripped, the rating is the float of \<open>92\<close>: the percent sign is removed
  before the text is parsed.
\<close>

theorem rotten_tomatoes_percent:
  \<open>\<exists>r. scrape_rotten_tomatoes client ttl yr = Inr r \<and> vote_count r = None \<and>
     (rotten_tomatoes_search_url ttl = Inr search_url \<and>
      client search_url = Inr soup \<and>
      or_else (select_one soup ''search-page-result[type="movie"] a'')
              (select_one soup ''#search-results movie-search-result-container a'') = Some movie_link \<and>
      get movie_link ''href'' = Some href \<and>
      client (if \<not> startswith href (ascii ''http'')
              then ascii ''https://www.rottentomatoes.com'' @ href else href) = Inr d_soup \<and>
      or_else (select_one d_soup ''rt-button[slot="criticsScore"] rt-text'')
              (select_one d_soup ''score-board-band rt-text'') = Some score_tag \<and>
      strip (get_text score_tag) = ascii ''92%''
      \<longrightarrow> rating r = Some (Finite 92))\<close>
proof -
  obtain r where r: "scrape_rotten_tomatoes client ttl yr = Inr r"
    using scrape_rotten_tomatoes_returns by blast
  then have "vote_count r = None"
    by (rule scrape_rotten_tomatoes_vote_count)
  moreover have "rating r = Some (Finite 92)"
    if "rotten_tomatoes_search_url ttl = Inr search_url" "client search_url = Inr soup"
       \<open>or_else (select_one soup ''search-page-result[type="movie"] a'')
              (select_one soup ''#search-results movie-search-result-container a'') = Some movie_link\<close>
       "get movie_link ''href'' = Some href"
       "client (if \<not> startswith href (ascii ''http'')
              then ascii ''https://www.rottentomatoes.com'' @ href else href) = Inr d_soup"
       \<open>or_else (select_one d_soup ''rt-button[slot="criticsScore"] rt-text'')
              (select_one d_soup ''score-board-band rt-text'') = Some score_tag\<close>
       "strip (get_text score_tag) = ascii ''92%''"
    using that r
    by (auto simp: scrape_rotten_tomatoes_def scrape_rotten_tomatoes_try_def then_do_def
          replace_92 float_92 split: if_splits)
  ultimately show ?thesis
    using r by blast
qed

lemma rotten_tomatoes_site_92:
  "scrape_rotten_tomatoes (rotten_tomatoes_site '' 92% '') (ascii ''Matrix'') (Some (ascii ''1999'')) =
     Inr \<lparr>source = ''Rotten Tomatoes'', rating = Some (Finite 92), vote_count = None,
          url = Some (ascii ''https://www.rottentomatoes.com/m/matrix'')\<rparr>"
  by (simp add: scrape_eval site_def link_def rotten_tomatoes_site_def eval_defs)


theorem rotten_tomatoes_percent_witness:
  \<open>scrape_rotten_tomatoes (rotten_tomatoes_site '' 92% '') (ascii ''Matrix'') (Some (ascii ''1999'')) =
     Inr \<lparr>source = ''Rotten Tomatoes'', rating = Some (Finite 92), vote_count = None,
          url = Some (ascii ''https://www.rottentomatoes.com/m/matrix'')\<rparr>\<close>
proof -
  let ?client = "rotten_tomatoes_site '' 92% ''"
  let ?link = "link ''The Matrix'' ''https://www.rottentomatoes.com/m/matrix''"
  let ?soup = \<open>Element [] [] [(''search-page-result[type="movie"] a'', [?link])]\<close>
  let ?tag = "Element (ascii '' 92% '') [] []"
  let ?details = \<open>Element [] [] [(''rt-button[slot="criticsScore"] rt-text'', [?tag])]\<close>
  let ?href = "ascii ''https://www.rottentomatoes.com/m/matrix''"
  have 0: "rotten_tomatoes_search_url (ascii ''Matrix'') =
             Inr (ascii ''https://www.rottentomatoes.com/search?search=Matrix'')"
    by (simp add: scrape_eval eval_defs)
  have 1: "?client (ascii ''https://www.rottentomatoes.com/search?search=Matrix'') = Inr ?soup"
    by (simp add: rotten_tomatoes_site_def site_def ascii_def)
  have 2: \<open>or_else (select_one ?soup ''search-page-result[type="movie"] a'')
              (select_one ?soup ''#search-results movie-search-result-container a'') = Some ?link\<close>
    by (simp add: or_else_def select_one_def select_def)
  have 3: "get ?link ''href'' = Some ?href"
    by (simp add: get_def link_def)
  have 4: "?client (if \<not> startswith ?href (ascii ''http'')
                    then ascii ''https://www.rottentomatoes.com'' @ ?href else ?href) = Inr ?details"
    by (simp add: rotten_tomatoes_site_def site_def ascii_def)
  have 5: \<open>or_else (select_one ?details ''rt-button[slot="criticsScore"] rt-text'')
              (select_one ?details ''score-board-band rt-text'') = Some ?tag\<close>
    by (simp add: or_else_def select_one_def select_def)
  have 6: "strip (get_text ?tag) = ascii ''92%''"
    by (simp add: strip_def isspace_def ascii_def)
  from rotten_tomatoes_percent [of ?client "ascii ''Matrix''" "Some (ascii ''1999'')"
         "ascii ''https://www.rottentomatoes.com/search?search=Matrix''" ?soup ?link ?href ?details ?tag]
       0 1 2 3 4 5 6
  obtain r where
    "scrape_rotten_tomatoes ?client (ascii ''Matrix'') (Some (ascii ''1999'')) = Inr r"
    "vote_count r = None" "rating r = Some (Finite 92)"
    by blast
  with rotten_tomatoes_site_92 show ?thesis
    by simp
qed

subsection \<open>A score that is not a number\<close>

text \<open>
  C4, at a page whose score element reads \<open>N/A\<close>: the Filmweb scraper and the IMDb
  scraper have resolved the detail URL and fetched the page, and return the entry
  without the URL, because \<open>float\<close> raises into the outer handler; the Rotten
  Tomatoes scraper, which guards the parse with a \<open>try\<close> of its own, returns the entry
  with the URL.
\<close>

theorem filmweb_unparsable_score_drops_url:
  "scrape_filmweb (filmweb_site ''N/A'') (ascii ''Matrix'') (Some (ascii ''1999'')) =
     Inr \<lparr>source = ''Filmweb'', rating = None, vote_count = None, url = None\<rparr> \<and>
   scrape_imdb (imdb_site ''N/A'') (ascii ''Matrix'') (Some (ascii ''1999'')) =
     Inr \<lparr>source = ''IMDb'', rating = None, vote_count = None, url = None\<rparr> \<and>
   scrape_rotten_tomatoes (rotten_tomatoes_site ''N/A'') (ascii ''Matrix'') (Some (ascii ''1999'')) =
     Inr \<lparr>source = ''Rotten Tomatoes'', rating = None, vote_count = None,
          url = Some (ascii ''https://www.rottentomatoes.com/m/matrix'')\<rparr>"
  by (simp add: scrape_eval site_def link_def filmweb_site_def imdb_site_def rotten_tomatoes_site_def
        eval_defs)

subsection \<open>The structured rating element\<close>

text \<open>
  C5, at a profile page with one entry that has a title and the structured element
  \<open>.userRate\<close> reading 8: the loop looks the element up and appends nothing for the
  entry, so the result is empty.
\<close>

theorem structured_rating_not_emitted:
  "scrape_filmweb_user_recent (serving (profile_page [structured_entry ''Matrix'' ''8'']))
     (ascii ''jan'') = Inr []"
  by (simp add: scrape_filmweb_user_recent_def scrape_filmweb_user_recent_try_def rate_item_def
        structured_entry_def eval_defs)

subsection \<open>Entries without a rating\<close>









subsection \<open>The search query\<close>

lemma unquote_plain: "c \<noteq> 37 \<Longrightarrow> unquote (c # cs) = c # unquote cs"
  by (cases "(c # cs)" rule: unquote.cases) auto

lemma hexval_hexdigit: "n < 16 \<Longrightarrow> hexval (hexdigit n) = Some n"
  by (auto simp: hexval_def hexdigit_def)

lemma unquote_quote_byte:
  assumes "b < 256"
  shows "unquote (quote_byte b @ cs) = b # unquote cs"
proof (cases "always_safe b \<or> b = 47")
  case True
  then have "b \<noteq> 37"
    by (auto simp: always_safe_def)
  with True show ?thesis
    by (simp add: quote_byte_def unquote_plain)
next
  case False
  from assms have "b div 16 < 16" "b mod 16 < 16"
    by simp_all
  with False show ?thesis
    by (simp add: quote_byte_def hexval_hexdigit)
qed

lemma unquote_quote_bytes:
  "\<forall>b\<in>set bs. b < 256 \<Longrightarrow> unquote (concat (map quote_byte bs)) = bs"
  by (induction bs) (simp_all add: unquote_quote_byte)

lemma utf8_bytes: "utf8 c = Inr bs \<Longrightarrow> \<forall>b\<in>set bs. b < 256"
  by (auto simp: utf8_def split: if_splits)

lemma encode_bytes: "encode s = Inr bs \<Longrightarrow> \<forall>b\<in>set bs. b < 256"
proof (induction s arbitrary: bs)
  case Nil
  then show ?case by simp
next
  case (Cons c s)
  from Cons.prems obtain x rest where
    x: "utf8 c = Inr x" and rest: "encode s = Inr rest" and bs: "bs = x @ rest"
    by (auto elim!: then_doE)
  from x have "\<forall>b\<in>set x. b < 256"
    by (rule utf8_bytes)
  moreover from rest have "\<forall>b\<in>set rest. b < 256"
    by (rule Cons.IH)
  ultimately show ?case
    using bs by auto
qed

lemma unquote_quote:
  assumes "quote s = Inr q"
  shows "encode s = Inr (unquote q)"
proof -
  from assms obtain bs where bs: "encode s = Inr bs" and q: "q = concat (map quote_byte bs)"
    by (auto simp: quote_def elim!: then_doE)
  from bs have "\<forall>b\<in>set bs. b < 256"
    by (rule encode_bytes)
  then have "unquote q = bs"
    unfolding q by (rule unquote_quote_bytes)
  with bs show ?thesis
    by simp
qed

text \<open>
  C3, as amended: for Filmweb and for IMDb, with a year that is present and not empty,
  the search URL is the prefix of the source followed by the quoted text of the title,
  a blank and the year (and raises where quoting does); and the quoted text decodes to
  the UTF-8 bytes of that text. A year that is present but empty gives the search URL
  of no year.
\<close>

theorem search_query_with_year:
  assumes "y \<noteq> []"
  shows "filmweb_search_url ttl (Some y) =
           then_do (quote (ttl @ ascii '' '' @ y))
             (\<lambda>q. Inr (ascii ''https://www.filmweb.pl/search?q='' @ q)) \<and>
         imdb_search_url ttl (Some y) =
           then_do (quote (ttl @ ascii '' '' @ y))
             (\<lambda>q. Inr (ascii ''https://www.imdb.com/find?q='' @ q @ ascii ''&s=tt'')) \<and>
         (\<forall>q. quote (ttl @ ascii '' '' @ y) = Inr q \<longrightarrow>
              encode (ttl @ ascii '' '' @ y) = Inr (unquote q)) \<and>
         filmweb_search_url ttl (Some []) = filmweb_search_url ttl None \<and>
         imdb_search_url ttl (Some []) = imdb_search_url ttl None"
  using assms
  by (simp add: filmweb_search_url_def imdb_search_url_def search_query_def unquote_quote)

theorem search_query_with_year_witness:
  "filmweb_search_url (ascii ''Matrix'') (Some (ascii ''1999'')) =
     Inr (ascii ''https://www.filmweb.pl/search?q=Matrix%201999'') \<and>
   imdb_search_url (ascii ''Matrix'') (Some (ascii ''1999'')) =
     Inr (ascii ''https://www.imdb.com/find?q=Matrix%201999&s=tt'') \<and>
   encode (ascii ''Matrix 1999'') = Inr (unquote (ascii ''Matrix%201999''))"
proof -
  have y: "ascii ''1999'' \<noteq> []"
    by (simp add: ascii_def)
  have q: "quote (ascii ''Matrix'' @ ascii '' '' @ ascii ''1999'') = Inr (ascii ''Matrix%201999'')"
    by (simp add: scrape_eval eval_defs)
  have a: "ascii ''Matrix'' @ ascii '' '' @ ascii ''1999'' = ascii ''Matrix 1999''"
    by (simp add: ascii_def)
  from search_query_with_year [OF y, of "ascii ''Matrix''"] q a show ?thesis
    by (simp add: then_do_def ascii_def)
qed

text \<open>
  C3 as stated fails: Rotten Tomatoes, asked for Matrix with the year 1999 on a network
  that knows the search URL of the title alone and fails on the one with the year, finds
  the film; the URL it asks for holds the title only. And for Filmweb a year that is
  present but empty is left out, blank included.
\<close>

theorem rotten_tomatoes_query_omits_year:
  "rotten_tomatoes_site ''92%'' (ascii ''https://www.rottentomatoes.com/search?search=Matrix%201999'') =
     Inl HTTPError \<and>
   scrape_rotten_tomatoes (rotten_tomatoes_site ''92%'') (ascii ''Matrix'') (Some (ascii ''1999'')) =
     Inr \<lparr>source = ''Rotten Tomatoes'', rating = Some (Finite 92), vote_count = None,
          url = Some (ascii ''https://www.rottentomatoes.com/m/matrix'')\<rparr> \<and>
   rotten_tomatoes_search_url (ascii ''Matrix'') =
     Inr (ascii ''https://www.rottentomatoes.com/search?search=Matrix'') \<and>
   filmweb_search_url (ascii ''Matrix'') (Some []) = Inr (ascii ''https://www.filmweb.pl/search?q=Matrix'')"
  by (simp add: scrape_eval site_def link_def rotten_tomatoes_site_def eval_defs)

end
